theory Spec2Isabelle
  imports Complex_Main
begin

section \<open>Data model\<close>

text \<open>
  The SQLAlchemy models of \<^verbatim>\<open>src/backend/src/models\<close>. Each mapped class is a
  record holding the columns that the reservation and trip services read or write;
  the purely descriptive columns (addresses, coordinates, vehicle data, preferences,
  recurrence) are left out. Python's \<^verbatim>\<open>Integer\<close> columns are \<open>int\<close>, nullable
  columns are \<open>option\<close>, timestamps are instants counted as \<open>int\<close>, and the
  \<^verbatim>\<open>Float\<close> columns (prices, fees, rating averages) are exact rationals: rounding
  of binary floating point is not modelled.
\<close>

datatype trip_status =
  TripStatus_ACTIVE | TripStatus_FULL | TripStatus_STARTED
  | TripStatus_COMPLETED | TripStatus_CANCELLED

datatype reservation_status =
  ReservationStatus_PENDING | ReservationStatus_CONFIRMED | ReservationStatus_PAID
  | ReservationStatus_STARTED | ReservationStatus_COMPLETED
  | ReservationStatus_CANCELLED_BY_PASSENGER | ReservationStatus_CANCELLED_BY_DRIVER
  | ReservationStatus_NO_SHOW

datatype payment_method =
  PaymentMethod_CASH | PaymentMethod_MOBILE_MONEY | PaymentMethod_CARD

datatype payment_status =
  PaymentStatus_PENDING | PaymentStatus_COMPLETED | PaymentStatus_FAILED
  | PaymentStatus_REFUNDED

datatype user_type = UserType_PASSAGER | UserType_CONDUCTEUR | UserType_BOTH

datatype user_status =
  UserStatus_PENDING | UserStatus_VERIFIED | UserStatus_SUSPENDED | UserStatus_BANNED

text \<open>
  Every way a service call can end without returning: the three HTTP errors the
  services raise, and the two Python exceptions that the code can run into
  (an attribute read on a missing related row, a division by zero). A call that
  raises never reaches \<^verbatim>\<open>db.commit()\<close>, so the stored state is the one it was
  given: a service returns either an error alone, or its result with the new state.
\<close>

datatype error =
  HTTP_404_NOT_FOUND | HTTP_403_FORBIDDEN | HTTP_400_BAD_REQUEST
  | AttributeError | ZeroDivisionError

record user =
  u_id :: int
  u_phone :: string
  u_is_active :: bool
  u_is_phone_verified :: bool
  u_user_type :: user_type
  u_status :: user_status
  u_driver_license_verified :: bool
  u_rating_average :: rat
  u_total_ratings :: int
  u_trips_as_driver :: int
  u_trips_as_passenger :: int

record trip =
  t_id :: int
  t_driver_id :: int
  t_departure_datetime :: int
  t_actual_departure_time :: "int option"
  t_actual_arrival_time :: "int option"
  t_total_seats :: int
  t_available_seats :: int
  t_price_per_seat :: rat
  t_status :: trip_status
  t_total_earnings :: rat
  t_platform_commission :: rat
  t_driver_earnings :: rat
  t_cancelled_at :: "int option"
  t_cancellation_reason :: "string option"

record reservation =
  r_id :: int
  r_trip_id :: int
  r_passenger_id :: int
  r_number_of_seats :: int
  r_pickup_address :: "string option"
  r_dropoff_address :: "string option"
  r_actual_pickup_time :: "int option"
  r_actual_dropoff_time :: "int option"
  r_status :: reservation_status
  r_total_price :: rat
  r_price_per_seat :: rat
  r_platform_fee :: rat
  r_payment_method :: "payment_method option"
  r_payment_status :: payment_status
  r_payment_transaction_id :: "string option"
  r_paid_at :: "int option"
  r_passenger_phone :: "string option"
  r_special_requests :: "string option"
  r_driver_notes :: "string option"
  r_passenger_rating :: "int option"
  r_driver_rating :: "int option"
  r_passenger_comment :: "string option"
  r_driver_comment :: "string option"
  r_confirmed_at :: "int option"
  r_cancelled_at :: "int option"
  r_cancellation_reason :: "string option"

section \<open>Model methods\<close>

subsection \<open>User\<close>

definition is_driver :: "user \<Rightarrow> bool" where
  "is_driver self \<longleftrightarrow> u_user_type self \<in> {UserType_CONDUCTEUR, UserType_BOTH}"

definition is_verified :: "user \<Rightarrow> bool" where
  "is_verified self =
     (let basic_verified = (u_is_phone_verified self \<and> u_status self = UserStatus_VERIFIED)
      in if is_driver self then basic_verified \<and> u_driver_license_verified self
         else basic_verified)"

definition can_create_trip :: "user \<Rightarrow> bool" where
  "can_create_trip self \<longleftrightarrow>
     is_driver self \<and> is_verified self \<and> u_status self = UserStatus_VERIFIED
     \<and> u_is_active self"

text \<open>
  \<^verbatim>\<open>User.update_rating\<close>: the score is computed from the old count, the count is
  incremented, and the division is by the incremented count; Python raises
  \<^verbatim>\<open>ZeroDivisionError\<close> when that count is zero.
\<close>

definition update_rating :: "user \<Rightarrow> rat \<Rightarrow> error + user" where
  "update_rating self new_rating =
     (let total_score = u_rating_average self * of_int (u_total_ratings self);
          self1 = self\<lparr>u_total_ratings := u_total_ratings self + 1\<rparr>
      in if u_total_ratings self1 = 0 then Inl ZeroDivisionError
         else Inr (self1\<lparr>u_rating_average :=
                     (total_score + new_rating) / of_int (u_total_ratings self1)\<rparr>))"

subsection \<open>Trip\<close>

text \<open>
  \<^verbatim>\<open>func.now()\<close> in the trip's properties is read as the current instant, which
  the model takes as the argument \<open>now\<close>.
\<close>

definition is_bookable :: "trip \<Rightarrow> int \<Rightarrow> bool" where
  "is_bookable self now \<longleftrightarrow>
     t_status self = TripStatus_ACTIVE \<and> t_available_seats self > 0
     \<and> t_departure_datetime self > now"



subsection \<open>Reservation\<close>

definition can_be_cancelled :: "reservation \<Rightarrow> bool" where
  "can_be_cancelled self \<longleftrightarrow>
     r_status self \<in> set [ReservationStatus_PENDING, ReservationStatus_CONFIRMED,
                           ReservationStatus_PAID]"

definition can_be_rated :: "reservation \<Rightarrow> bool" where
  "can_be_rated self \<longleftrightarrow> r_status self = ReservationStatus_COMPLETED"

definition is_active :: "reservation \<Rightarrow> bool" where
  "is_active self \<longleftrightarrow>
     r_status self \<in> set [ReservationStatus_PENDING, ReservationStatus_CONFIRMED,
                           ReservationStatus_PAID, ReservationStatus_STARTED]"

definition start_trip :: "reservation \<Rightarrow> int \<Rightarrow> bool \<times> reservation" where
  "start_trip self now =
     (if r_status self = ReservationStatus_PAID then
        (True, self\<lparr>r_status := ReservationStatus_STARTED, r_actual_pickup_time := Some now\<rparr>)
      else (False, self))"

definition rate_driver :: "reservation \<Rightarrow> int \<Rightarrow> string option \<Rightarrow> bool \<times> reservation" where
  "rate_driver self rating comment =
     (if can_be_rated self \<and> 1 \<le> rating \<and> rating \<le> 5 then
        (True, self\<lparr>r_driver_rating := Some rating, r_passenger_comment := comment\<rparr>)
      else (False, self))"

section \<open>Trip inventory\<close>


section \<open>Persistence\<close>

text \<open>
  The SQLAlchemy session is a record of three tables, each a list of rows.
  \<^verbatim>\<open>query(...).filter(...).first()\<close> is \<open>find\<close>; a mutated row reaches the
  table at \<^verbatim>\<open>db.commit()\<close>, which replaces the row carrying the same primary
  key; \<^verbatim>\<open>db.add\<close> appends a row whose primary key the store assigns, one above
  the largest key in use.
\<close>

record database =
  db_users :: "user list"
  db_trips :: "trip list"
  db_reservations :: "reservation list"

fun replace_row :: "('a \<Rightarrow> bool) \<Rightarrow> 'a \<Rightarrow> 'a list \<Rightarrow> 'a list" where
  "replace_row p y [] = []"
| "replace_row p y (x # xs) = (if p x then y # xs else x # replace_row p y xs)"

definition user_by_id :: "database \<Rightarrow> int \<Rightarrow> user option" where
  "user_by_id db uid = find (\<lambda>u. u_id u = uid) (db_users db)"

definition trip_by_id :: "database \<Rightarrow> int \<Rightarrow> trip option" where
  "trip_by_id db tid = find (\<lambda>t. t_id t = tid) (db_trips db)"

definition reservation_by_id :: "database \<Rightarrow> int \<Rightarrow> reservation option" where
  "reservation_by_id db rid = find (\<lambda>r. r_id r = rid) (db_reservations db)"

definition commit_user :: "database \<Rightarrow> user \<Rightarrow> database" where
  "commit_user db u = db\<lparr>db_users := replace_row (\<lambda>x. u_id x = u_id u) u (db_users db)\<rparr>"

definition commit_trip :: "database \<Rightarrow> trip \<Rightarrow> database" where
  "commit_trip db t = db\<lparr>db_trips := replace_row (\<lambda>x. t_id x = t_id t) t (db_trips db)\<rparr>"

definition commit_reservation :: "database \<Rightarrow> reservation \<Rightarrow> database" where
  "commit_reservation db r =
     db\<lparr>db_reservations := replace_row (\<lambda>x. r_id x = r_id r) r (db_reservations db)\<rparr>"

definition next_id :: "int list \<Rightarrow> int" where
  "next_id ids = fold max ids 0 + 1"

section \<open>Trip service\<close>

text \<open>
  The request dictionary of \<^verbatim>\<open>TripService.create_trip\<close>, reduced to the keys
  whose columns the model keeps.
\<close>

record trip_data =
  td_departure_datetime :: int
  td_available_seats :: int
  td_price_per_seat :: rat

definition get_trip_by_id :: "database \<Rightarrow> int \<Rightarrow> error + trip" where
  "get_trip_by_id db trip_id =
     (case trip_by_id db trip_id of
        None \<Rightarrow> Inl HTTP_404_NOT_FOUND
      | Some trip \<Rightarrow> Inr trip)"

definition active_trips_count :: "database \<Rightarrow> int \<Rightarrow> nat" where
  "active_trips_count db driver_id =
     length (filter (\<lambda>t. t_driver_id t = driver_id
                          \<and> t_status t \<in> set [TripStatus_ACTIVE, TripStatus_FULL])
               (db_trips db))"

definition create_trip :: "database \<Rightarrow> trip_data \<Rightarrow> user \<Rightarrow> error + trip \<times> database" where
  "create_trip db data driver =
     (if \<not> can_create_trip driver then Inl HTTP_403_FORBIDDEN
      else if active_trips_count db (u_id driver) \<ge> 5 then Inl HTTP_400_BAD_REQUEST
      else
        (let new_trip =
               \<lparr>t_id = next_id (map t_id (db_trips db)),
                t_driver_id = u_id driver,
                t_departure_datetime = td_departure_datetime data,
                t_actual_departure_time = None,
                t_actual_arrival_time = None,
                t_total_seats = td_available_seats data,
                t_available_seats = td_available_seats data,
                t_price_per_seat = td_price_per_seat data,
                t_status = TripStatus_ACTIVE,
                t_total_earnings = 0,
                t_platform_commission = 0,
                t_driver_earnings = 0,
                t_cancelled_at = None,
                t_cancellation_reason = None\<rparr>;
             db1 = db\<lparr>db_trips := db_trips db @ [new_trip]\<rparr>;
             driver1 = driver\<lparr>u_trips_as_driver := u_trips_as_driver driver + 1\<rparr>
         in Inr (new_trip, commit_user db1 driver1)))"

definition cancel_trip ::
  "database \<Rightarrow> int \<Rightarrow> user \<Rightarrow> string \<Rightarrow> int \<Rightarrow> error + trip \<times> database" where
  "cancel_trip db trip_id driver reason now =
     (case get_trip_by_id db trip_id of
        Inl e \<Rightarrow> Inl e
      | Inr trip \<Rightarrow>
          if t_driver_id trip \<noteq> u_id driver then Inl HTTP_403_FORBIDDEN
          else if t_status trip \<notin> set [TripStatus_ACTIVE, TripStatus_FULL]
          then Inl HTTP_400_BAD_REQUEST
          else
            (let trip1 = trip\<lparr>t_status := TripStatus_CANCELLED,
                              t_cancelled_at := Some now,
                              t_cancellation_reason := Some reason\<rparr>
             in Inr (trip1, commit_trip db trip1)))"

section \<open>Reservation service\<close>

text \<open>
  The relationships \<^verbatim>\<open>reservation.trip\<close>, \<^verbatim>\<open>reservation.passenger\<close> and
  \<^verbatim>\<open>trip.driver\<close> load the row the foreign key names; reading an attribute
  of a missing row raises \<^verbatim>\<open>AttributeError\<close>.
\<close>

definition reservation_trip :: "database \<Rightarrow> reservation \<Rightarrow> trip option" where
  "reservation_trip db reservation = trip_by_id db (r_trip_id reservation)"

definition reservation_passenger :: "database \<Rightarrow> reservation \<Rightarrow> user option" where
  "reservation_passenger db reservation = user_by_id db (r_passenger_id reservation)"

definition trip_driver :: "database \<Rightarrow> trip \<Rightarrow> user option" where
  "trip_driver db trip = user_by_id db (t_driver_id trip)"

text \<open>
  The request dictionary of \<^verbatim>\<open>create_reservation\<close>; \<open>None\<close> in
  \<open>rd_number_of_seats\<close> and \<open>rd_payment_method\<close> stands for a missing key, for
  which \<^verbatim>\<open>dict.get\<close> supplies the default.
\<close>

record reservation_data =
  rd_number_of_seats :: "int option"
  rd_pickup_address :: "string option"
  rd_dropoff_address :: "string option"
  rd_payment_method :: "payment_method option"
  rd_special_requests :: "string option"

definition seats_requested :: "reservation_data \<Rightarrow> int" where
  "seats_requested data = (case rd_number_of_seats data of None \<Rightarrow> 1 | Some n \<Rightarrow> n)"

definition create_reservation ::
  "database \<Rightarrow> reservation_data \<Rightarrow> user \<Rightarrow> int \<Rightarrow> int \<Rightarrow> error + reservation \<times> database" where
  "create_reservation db data passenger trip_id now =
     (case get_trip_by_id db trip_id of
        Inl e \<Rightarrow> Inl e
      | Inr trip \<Rightarrow>
          if \<not> u_is_phone_verified passenger then Inl HTTP_403_FORBIDDEN
          else if t_driver_id trip = u_id passenger then Inl HTTP_400_BAD_REQUEST
          else if t_status trip \<noteq> TripStatus_ACTIVE \<or> t_available_seats trip \<le> 0
                  \<or> t_departure_datetime trip \<le> now
          then Inl HTTP_400_BAD_REQUEST
          else
            (let seats_requested = seats_requested data
             in if t_available_seats trip < seats_requested then Inl HTTP_400_BAD_REQUEST
                else
                  (case find (\<lambda>r. r_trip_id r = trip_id \<and> r_passenger_id r = u_id passenger
                                    \<and> r_status r \<in> set [ReservationStatus_PENDING,
                                                          ReservationStatus_CONFIRMED,
                                                          ReservationStatus_PAID,
                                                          ReservationStatus_STARTED])
                          (db_reservations db) of
                     Some existing_reservation \<Rightarrow> Inl HTTP_400_BAD_REQUEST
                   | None \<Rightarrow>
                       (let total_price = t_price_per_seat trip * of_int seats_requested;
                            platform_fee = total_price * (5 / 100);
                            new_reservation =
                              \<lparr>r_id = next_id (map r_id (db_reservations db)),
                               r_trip_id = trip_id,
                               r_passenger_id = u_id passenger,
                               r_number_of_seats = seats_requested,
                               r_pickup_address = rd_pickup_address data,
                               r_dropoff_address = rd_dropoff_address data,
                               r_actual_pickup_time = None,
                               r_actual_dropoff_time = None,
                               r_status = ReservationStatus_PENDING,
                               r_total_price = total_price,
                               r_price_per_seat = t_price_per_seat trip,
                               r_platform_fee = platform_fee,
                               r_payment_method =
                                 (case rd_payment_method data of
                                    None \<Rightarrow> Some PaymentMethod_CASH
                                  | Some m \<Rightarrow> Some m),
                               r_payment_status = PaymentStatus_PENDING,
                               r_payment_transaction_id = None,
                               r_paid_at = None,
                               r_passenger_phone = Some (u_phone passenger),
                               r_special_requests = rd_special_requests data,
                               r_driver_notes = None,
                               r_passenger_rating = None,
                               r_driver_rating = None,
                               r_passenger_comment = None,
                               r_driver_comment = None,
                               r_confirmed_at = None,
                               r_cancelled_at = None,
                               r_cancellation_reason = None\<rparr>
                        in Inr (new_reservation,
                                db\<lparr>db_reservations :=
                                      db_reservations db @ [new_reservation]\<rparr>)))))"

definition get_reservation_by_id :: "database \<Rightarrow> int \<Rightarrow> user \<Rightarrow> error + reservation" where
  "get_reservation_by_id db reservation_id current_user =
     (case reservation_by_id db reservation_id of
        None \<Rightarrow> Inl HTTP_404_NOT_FOUND
      | Some reservation \<Rightarrow>
          if r_passenger_id reservation \<noteq> u_id current_user then
            (case reservation_trip db reservation of
               None \<Rightarrow> Inl AttributeError
             | Some trip \<Rightarrow>
                 if t_driver_id trip \<noteq> u_id current_user then Inl HTTP_403_FORBIDDEN
                 else Inr reservation)
          else Inr reservation)"

text \<open>Python's truth value of an optional string: \<^verbatim>\<open>None\<close> and \<^verbatim>\<open>""\<close> are false.\<close>

definition truthy :: "string option \<Rightarrow> bool" where
  "truthy message \<longleftrightarrow> (case message of None \<Rightarrow> False | Some s \<Rightarrow> s \<noteq> [])"

definition default_refusal_reason :: string where
  "default_refusal_reason = ''Refuse par le conducteur''"

definition confirm_reservation ::
  "database \<Rightarrow> int \<Rightarrow> user \<Rightarrow> bool \<Rightarrow> string option \<Rightarrow> int \<Rightarrow> error + reservation \<times> database" where
  "confirm_reservation db reservation_id conductor accept message now =
     (case reservation_by_id db reservation_id of
        None \<Rightarrow> Inl HTTP_404_NOT_FOUND
      | Some reservation \<Rightarrow>
          (case reservation_trip db reservation of
             None \<Rightarrow> Inl AttributeError
           | Some trip \<Rightarrow>
               if t_driver_id trip \<noteq> u_id conductor then Inl HTTP_403_FORBIDDEN
               else if r_status reservation \<noteq> ReservationStatus_PENDING
               then Inl HTTP_400_BAD_REQUEST
               else if accept then
                 (if t_available_seats trip < r_number_of_seats reservation
                  then Inl HTTP_400_BAD_REQUEST
                  else
                    (let reservation1 = reservation\<lparr>r_status := ReservationStatus_CONFIRMED,
                                                    r_confirmed_at := Some now\<rparr>;
                         trip1 = trip\<lparr>t_available_seats :=
                                        t_available_seats trip - r_number_of_seats reservation1\<rparr>;
                         trip2 = (if t_available_seats trip1 = 0
                                  then trip1\<lparr>t_status := TripStatus_FULL\<rparr> else trip1);
                         reservation2 = (if truthy message
                                         then reservation1\<lparr>r_driver_notes := message\<rparr>
                                         else reservation1)
                     in Inr (reservation2,
                             commit_trip (commit_reservation db reservation2) trip2)))
               else
                 (let reservation1 =
                        reservation\<lparr>r_status := ReservationStatus_CANCELLED_BY_DRIVER,
                                     r_cancelled_at := Some now,
                                     r_cancellation_reason :=
                                       (if truthy message then message
                                        else Some default_refusal_reason)\<rparr>;
                      reservation2 = (if truthy message
                                      then reservation1\<lparr>r_driver_notes := message\<rparr>
                                      else reservation1)
                  in Inr (reservation2, commit_reservation db reservation2))))"

text \<open>
  \<^verbatim>\<open>cancel_reservation\<close>, statement by statement: the status is overwritten
  first, and the test that guards the release of seats reads the status after that.
\<close>

definition cancel_reservation ::
  "database \<Rightarrow> int \<Rightarrow> user \<Rightarrow> string \<Rightarrow> int \<Rightarrow> error + reservation \<times> database" where
  "cancel_reservation db reservation_id user reason now =
     (case get_reservation_by_id db reservation_id user of
        Inl e \<Rightarrow> Inl e
      | Inr reservation \<Rightarrow>
          if \<not> can_be_cancelled reservation then Inl HTTP_400_BAD_REQUEST
          else
            (case (if r_passenger_id reservation = u_id user
                   then Inr (reservation\<lparr>r_status := ReservationStatus_CANCELLED_BY_PASSENGER\<rparr>)
                   else (case reservation_trip db reservation of
                           None \<Rightarrow> Inl AttributeError
                         | Some trip \<Rightarrow>
                             if t_driver_id trip = u_id user
                             then Inr (reservation\<lparr>r_status :=
                                                      ReservationStatus_CANCELLED_BY_DRIVER\<rparr>)
                             else Inl HTTP_403_FORBIDDEN)) of
               Inl e \<Rightarrow> Inl e
             | Inr reservation1 \<Rightarrow>
                 (let reservation2 = reservation1\<lparr>r_cancelled_at := Some now,
                                                   r_cancellation_reason := Some reason\<rparr>
                  in if r_status reservation2 \<in> set [ReservationStatus_CONFIRMED,
                                                       ReservationStatus_PAID]
                     then
                       (case reservation_trip db reservation2 of
                          None \<Rightarrow> Inl AttributeError
                        | Some trip \<Rightarrow>
                            (let trip1 = trip\<lparr>t_available_seats :=
                                                t_available_seats trip
                                                + r_number_of_seats reservation2\<rparr>;
                                 trip2 = (if t_status trip1 = TripStatus_FULL
                                          then trip1\<lparr>t_status := TripStatus_ACTIVE\<rparr>
                                          else trip1)
                             in Inr (reservation2,
                                     commit_trip (commit_reservation db reservation2) trip2)))
                     else Inr (reservation2, commit_reservation db reservation2))))"

definition mark_reservation_as_started ::
  "database \<Rightarrow> int \<Rightarrow> user \<Rightarrow> int \<Rightarrow> error + reservation \<times> database" where
  "mark_reservation_as_started db reservation_id user now =
     (case get_reservation_by_id db reservation_id user of
        Inl e \<Rightarrow> Inl e
      | Inr reservation \<Rightarrow>
          if r_status reservation \<noteq> ReservationStatus_CONFIRMED then Inl HTTP_400_BAD_REQUEST
          else
            (let reservation1 = reservation\<lparr>r_status := ReservationStatus_STARTED,
                                            r_actual_pickup_time := Some now\<rparr>
             in Inr (reservation1, commit_reservation db reservation1)))"


section \<open>Example data\<close>

text \<open>
  The trip of the specification's scenarios: four seats at 1000 FCFA each, owned by
  driver 10 whose rating stands at 4.0 from two ratings; passenger 20 is
  phone-verified.
\<close>

definition driver0 :: user where
  "driver0 = \<lparr>u_id = 10, u_phone = ''0700000010'', u_is_active = True,
     u_is_phone_verified = True, u_user_type = UserType_CONDUCTEUR,
     u_status = UserStatus_VERIFIED, u_driver_license_verified = True,
     u_rating_average = 4, u_total_ratings = 2, u_trips_as_driver = 1,
     u_trips_as_passenger = 0\<rparr>"

definition passenger0 :: user where
  "passenger0 = \<lparr>u_id = 20, u_phone = ''0700000020'', u_is_active = True,
     u_is_phone_verified = True, u_user_type = UserType_PASSAGER,
     u_status = UserStatus_VERIFIED, u_driver_license_verified = False,
     u_rating_average = 0, u_total_ratings = 0, u_trips_as_driver = 0,
     u_trips_as_passenger = 0\<rparr>"

definition trip_new :: trip where
  "trip_new = \<lparr>t_id = 1, t_driver_id = 10, t_departure_datetime = 1000,
     t_actual_departure_time = None, t_actual_arrival_time = None,
     t_total_seats = 4, t_available_seats = 4, t_price_per_seat = 1000,
     t_status = TripStatus_ACTIVE, t_total_earnings = 0, t_platform_commission = 0,
     t_driver_earnings = 0, t_cancelled_at = None, t_cancellation_reason = None\<rparr>"

text \<open>The same trip once two of its seats are taken.\<close>

definition trip0 :: trip where
  "trip0 = trip_new\<lparr>t_available_seats := 2\<rparr>"

definition data0 :: reservation_data where
  "data0 = \<lparr>rd_number_of_seats = Some 2, rd_pickup_address = None,
     rd_dropoff_address = None, rd_payment_method = None, rd_special_requests = None\<rparr>"

text \<open>The reservation that \<open>create_reservation\<close> builds from \<open>data0\<close> on that trip.\<close>

definition res_pending :: reservation where
  "res_pending = \<lparr>r_id = 1, r_trip_id = 1, r_passenger_id = 20, r_number_of_seats = 2,
     r_pickup_address = None, r_dropoff_address = None, r_actual_pickup_time = None,
     r_actual_dropoff_time = None, r_status = ReservationStatus_PENDING,
     r_total_price = 2000, r_price_per_seat = 1000, r_platform_fee = 100,
     r_payment_method = Some PaymentMethod_CASH, r_payment_status = PaymentStatus_PENDING,
     r_payment_transaction_id = None, r_paid_at = None,
     r_passenger_phone = Some ''0700000020'', r_special_requests = None,
     r_driver_notes = None, r_passenger_rating = None, r_driver_rating = None,
     r_passenger_comment = None, r_driver_comment = None, r_confirmed_at = None,
     r_cancelled_at = None, r_cancellation_reason = None\<rparr>"

definition db_new :: database where
  "db_new = \<lparr>db_users = [driver0, passenger0], db_trips = [trip_new],
     db_reservations = []\<rparr>"

definition db_pending :: database where
  "db_pending = db_new\<lparr>db_reservations := [res_pending]\<rparr>"

text \<open>The reservation after the driver's confirmation at instant 10, later stages below.\<close>

definition res_confirmed :: reservation where
  "res_confirmed = res_pending\<lparr>r_status := ReservationStatus_CONFIRMED,
     r_confirmed_at := Some 10\<rparr>"

definition db_confirmed :: database where
  "db_confirmed = \<lparr>db_users = [driver0, passenger0], db_trips = [trip0],
     db_reservations = [res_confirmed]\<rparr>"

definition res_paid :: reservation where
  "res_paid = res_confirmed\<lparr>r_status := ReservationStatus_PAID,
     r_payment_status := PaymentStatus_COMPLETED, r_paid_at := Some 20\<rparr>"

definition db_paid :: database where
  "db_paid = db_confirmed\<lparr>db_reservations := [res_paid]\<rparr>"

definition res_completed :: reservation where
  "res_completed = res_confirmed\<lparr>r_status := ReservationStatus_COMPLETED,
     r_actual_pickup_time := Some 1000, r_actual_dropoff_time := Some 2000\<rparr>"

definition db_completed :: database where
  "db_completed = db_confirmed\<lparr>db_reservations := [res_completed]\<rparr>"

text \<open>
  Scenario B: the trip with two seats left and no reservation of passenger 20 on it,
  and a request for three seats.
\<close>

definition data3 :: reservation_data where
  "data3 = data0\<lparr>rd_number_of_seats := Some 3\<rparr>"

definition db_two_left :: database where
  "db_two_left = db_new\<lparr>db_trips := [trip0]\<rparr>"

text \<open>A driver with four, and with five, active trips, and a new trip to publish.\<close>

definition trip_data0 :: trip_data where
  "trip_data0 = \<lparr>td_departure_datetime = 5000, td_available_seats = 3,
     td_price_per_seat = 1500\<rparr>"

definition db_four_trips :: database where
  "db_four_trips = \<lparr>db_users = [driver0, passenger0],
     db_trips = map (\<lambda>i. trip_new\<lparr>t_id := i\<rparr>) [1, 2, 3, 4], db_reservations = []\<rparr>"

definition db_five_trips :: database where
  "db_five_trips = \<lparr>db_users = [driver0, passenger0],
     db_trips = map (\<lambda>i. trip_new\<lparr>t_id := i\<rparr>) [1, 2, 3, 4, 5], db_reservations = []\<rparr>"




text \<open>
  A driver at the limit: four ordinary trips and a two-seat trip, number 6, on which
  passenger 20 has a pending request for both seats. The states below follow the
  driver cancelling trip 6, publishing another trip, and then accepting the request.
\<close>

definition trip_short :: trip where
  "trip_short = trip_new\<lparr>t_id := 6, t_total_seats := 2, t_available_seats := 2\<rparr>"

definition trip_short_cancelled :: trip where
  "trip_short_cancelled = trip_short\<lparr>t_status := TripStatus_CANCELLED,
     t_cancelled_at := Some 5, t_cancellation_reason := Some ''breakdown''\<rparr>"

definition trip_seventh :: trip where
  "trip_seventh = \<lparr>t_id = 7, t_driver_id = 10, t_departure_datetime = 5000,
     t_actual_departure_time = None, t_actual_arrival_time = None,
     t_total_seats = 3, t_available_seats = 3, t_price_per_seat = 1500,
     t_status = TripStatus_ACTIVE, t_total_earnings = 0, t_platform_commission = 0,
     t_driver_earnings = 0, t_cancelled_at = None, t_cancellation_reason = None\<rparr>"

definition res_short :: reservation where
  "res_short = res_pending\<lparr>r_trip_id := 6\<rparr>"

definition db_limit0 :: database where
  "db_limit0 = \<lparr>db_users = [driver0, passenger0],
     db_trips = map (\<lambda>i. trip_new\<lparr>t_id := i\<rparr>) [1, 2, 3, 4] @ [trip_short],
     db_reservations = [res_short]\<rparr>"

definition db_limit1 :: database where
  "db_limit1 = db_limit0\<lparr>db_trips :=
     map (\<lambda>i. trip_new\<lparr>t_id := i\<rparr>) [1, 2, 3, 4] @ [trip_short_cancelled]\<rparr>"

definition db_limit2 :: database where
  "db_limit2 = \<lparr>db_users = [driver0\<lparr>u_trips_as_driver := 2\<rparr>, passenger0],
     db_trips = map (\<lambda>i. trip_new\<lparr>t_id := i\<rparr>) [1, 2, 3, 4]
                @ [trip_short_cancelled, trip_seventh],
     db_reservations = [res_short]\<rparr>"

definition db_limit3 :: database where
  "db_limit3 = db_limit2\<lparr>
     db_trips := map (\<lambda>i. trip_new\<lparr>t_id := i\<rparr>) [1, 2, 3, 4]
                 @ [trip_short_cancelled\<lparr>t_available_seats := 0, t_status := TripStatus_FULL\<rparr>,
                    trip_seventh],
     db_reservations := [res_short\<lparr>r_status := ReservationStatus_CONFIRMED,
                                   r_confirmed_at := Some 10\<rparr>]\<rparr>"

section \<open>Facts about the tables\<close>

lemma find_replace_row_key:
  "find (\<lambda>x. f x = k) (replace_row (\<lambda>x. f x = f y) y xs) =
     (if k = f y then (case find (\<lambda>x. f x = k) xs of None \<Rightarrow> None | Some z \<Rightarrow> Some y)
      else find (\<lambda>x. f x = k) xs)"
  by (induction xs) auto

lemma find_key: "find (\<lambda>x. f x = k) xs = Some y \<Longrightarrow> f y = k"
  by (induction xs) (auto split: if_splits)

lemma find_Some_in: "find P xs = Some x \<Longrightarrow> x \<in> set xs \<and> P x"
  by (induction xs) (auto split: if_splits)

lemma reservation_by_id_commit_reservation:
  "reservation_by_id (commit_reservation db r) k =
     (if k = r_id r
      then (case reservation_by_id db k of None \<Rightarrow> None | Some z \<Rightarrow> Some r)
      else reservation_by_id db k)"
  unfolding reservation_by_id_def commit_reservation_def
  by (simp add: find_replace_row_key)




lemma commit_frames:
  "db_users (commit_reservation db r) = db_users db"
  "db_trips (commit_reservation db r) = db_trips db"
  "db_users (commit_trip db t) = db_users db"
  "db_reservations (commit_trip db t) = db_reservations db"
  "db_trips (commit_user db u) = db_trips db"
  "db_reservations (commit_user db u) = db_reservations db"
  by (simp_all add: commit_reservation_def commit_trip_def commit_user_def)

lemma reservation_by_id_key: "reservation_by_id db k = Some r \<Longrightarrow> r_id r = k"
  unfolding reservation_by_id_def by (rule find_key)



lemmas example_defs = db_new_def db_pending_def db_confirmed_def db_paid_def
  db_completed_def db_two_left_def trip_new_def trip0_def driver0_def passenger0_def
  data0_def data3_def res_pending_def res_confirmed_def res_paid_def res_completed_def

lemmas limit_defs = db_limit0_def db_limit1_def db_limit2_def db_limit3_def trip_short_def
  trip_short_cancelled_def trip_seventh_def res_short_def trip_data0_def

lemmas table_defs = trip_by_id_def user_by_id_def reservation_by_id_def
  reservation_trip_def reservation_passenger_def trip_driver_def
  commit_reservation_def commit_trip_def commit_user_def

lemma get_reservation_by_id_Inr:
  "get_reservation_by_id db rid user = Inr r \<longleftrightarrow>
     reservation_by_id db rid = Some r
     \<and> (r_passenger_id r = u_id user
        \<or> (\<exists>t. trip_by_id db (r_trip_id r) = Some t \<and> t_driver_id t = u_id user))"
  by (auto simp: get_reservation_by_id_def reservation_trip_def
           split: option.splits if_splits)

section \<open>Rating aggregator\<close>

text \<open>
  C7. \<^verbatim>\<open>update_rating(user, new_rating)\<close> sets \<open>rating_average\<close> to
  (old average \<times> old count + new rating) / (old count + 1) and raises the count
  \<open>total_ratings\<close> by exactly one, leaving every other column alone. The count
  starts at 0 and only ever grows, so the divisor is not zero; the hypothesis says
  no more than that.
\<close>

theorem update_rating_running_average:
  assumes "u_total_ratings u + 1 \<noteq> 0"
  shows "update_rating u x =
           Inr (u\<lparr>u_total_ratings := u_total_ratings u + 1,
                  u_rating_average :=
                    (u_rating_average u * of_int (u_total_ratings u) + x)
                    / of_int (u_total_ratings u + 1)\<rparr>)"
  using assms by (simp add: update_rating_def Let_def)

text \<open>From an average of 4.0 over two ratings, a rating of 5 gives 13/3 over three.\<close>

theorem update_rating_running_average_witness:
  "u_total_ratings driver0 + 1 \<noteq> 0
   \<and> u_rating_average driver0 = 4 \<and> u_total_ratings driver0 = 2
   \<and> update_rating driver0 5 =
       Inr (driver0\<lparr>u_total_ratings := 3, u_rating_average := 13 / 3\<rparr>)"
proof -
  have h: "u_total_ratings driver0 + 1 \<noteq> 0" by (simp add: driver0_def)
  show ?thesis
    using h update_rating_running_average [OF h, of 5] by (simp add: driver0_def)
qed

section \<open>Trip inventory: the capacity invariant\<close>




section \<open>Reservation creation\<close>



text \<open>
  C4. \<^verbatim>\<open>create_reservation\<close> never changes a trip: when it returns, the trips
  and users tables are the ones it was given, and the reservations table has gained
  exactly the returned reservation, which is PENDING. It returns exactly when all
  guards pass (the trip exists, the passenger is phone-verified and is not the
  driver, the trip is bookable, the requested seats do not exceed the free seats, and
  the passenger has no active reservation on the trip); otherwise it raises, and a
  raised error carries no new state.
\<close>

theorem create_reservation_frame:
  "(\<forall>res db'. create_reservation db data passenger trip_id now = Inr (res, db') \<longrightarrow>
      db_trips db' = db_trips db \<and> db_users db' = db_users db
      \<and> db_reservations db' = db_reservations db @ [res]
      \<and> r_status res = ReservationStatus_PENDING)
   \<and> ((\<exists>res db'. create_reservation db data passenger trip_id now = Inr (res, db'))
        \<longleftrightarrow> (\<exists>trip. trip_by_id db trip_id = Some trip
               \<and> u_is_phone_verified passenger
               \<and> t_driver_id trip \<noteq> u_id passenger
               \<and> is_bookable trip now
               \<and> seats_requested data \<le> t_available_seats trip
               \<and> (\<forall>r \<in> set (db_reservations db).
                     \<not> (r_trip_id r = trip_id \<and> r_passenger_id r = u_id passenger
                        \<and> is_active r))))"
proof (intro conjI allI impI)
  fix res db'
  assume h: "create_reservation db data passenger trip_id now = Inr (res, db')"
  from h show "db_trips db' = db_trips db"
    by (auto simp: create_reservation_def get_trip_by_id_def Let_def
           split: option.splits if_splits)
  from h show "db_users db' = db_users db"
    by (auto simp: create_reservation_def get_trip_by_id_def Let_def
           split: option.splits if_splits)
  from h show "db_reservations db' = db_reservations db @ [res]"
    by (auto simp: create_reservation_def get_trip_by_id_def Let_def
           split: option.splits if_splits)
  from h show "r_status res = ReservationStatus_PENDING"
    by (auto simp: create_reservation_def get_trip_by_id_def Let_def
           split: option.splits if_splits)
next
  show "(\<exists>res db'. create_reservation db data passenger trip_id now = Inr (res, db'))
        \<longleftrightarrow> (\<exists>trip. trip_by_id db trip_id = Some trip
               \<and> u_is_phone_verified passenger
               \<and> t_driver_id trip \<noteq> u_id passenger
               \<and> is_bookable trip now
               \<and> seats_requested data \<le> t_available_seats trip
               \<and> (\<forall>r \<in> set (db_reservations db).
                     \<not> (r_trip_id r = trip_id \<and> r_passenger_id r = u_id passenger
                        \<and> is_active r)))"
    by (auto simp: create_reservation_def get_trip_by_id_def is_bookable_def is_active_def
          Let_def find_None_iff split: option.splits if_splits dest!: find_Some_in)
qed

text \<open>
  Scenario A creates the reservation and leaves the trip alone; Scenario B, three
  seats requested when two are free, is refused.
\<close>

theorem create_reservation_frame_witness:
  "create_reservation db_new data0 passenger0 1 0 = Inr (res_pending, db_pending)
   \<and> db_trips db_pending = db_trips db_new
   \<and> r_status res_pending = ReservationStatus_PENDING
   \<and> seats_requested data3 = 3 \<and> trip_by_id db_two_left 1 = Some trip0
   \<and> t_available_seats trip0 = 2
   \<and> create_reservation db_two_left data3 passenger0 1 0 = Inl HTTP_400_BAD_REQUEST"
proof -
  have h: "create_reservation db_new data0 passenger0 1 0 = Inr (res_pending, db_pending)"
    by (simp add: create_reservation_def get_trip_by_id_def trip_by_id_def example_defs
          seats_requested_def next_id_def Let_def)
  have g: "create_reservation db_two_left data3 passenger0 1 0 = Inl HTTP_400_BAD_REQUEST"
    by (simp add: create_reservation_def get_trip_by_id_def trip_by_id_def example_defs
          seats_requested_def next_id_def Let_def)
  have t: "trip_by_id db_two_left 1 = Some trip0"
    by (simp add: trip_by_id_def example_defs)
  from create_reservation_frame [of db_new data0 passenger0 1 0] h
  have "db_trips db_pending = db_trips db_new \<and> r_status res_pending = ReservationStatus_PENDING"
    by blast
  moreover from create_reservation_frame [of db_two_left data3 passenger0 1 0] g t
  have "\<not> seats_requested data3 \<le> t_available_seats trip0
        \<or> \<not> is_bookable trip0 0 \<or> \<not> u_is_phone_verified passenger0
        \<or> t_driver_id trip0 = u_id passenger0
        \<or> \<not> (\<forall>r \<in> set (db_reservations db_two_left).
                     \<not> (r_trip_id r = 1 \<and> r_passenger_id r = u_id passenger0
                        \<and> is_active r))"
    by auto
  ultimately show ?thesis using h g t
    by (simp add: seats_requested_def example_defs)
qed

section \<open>Driver confirmation\<close>



section \<open>Starting a reservation\<close>

text \<open>
  C2, as the specification states it, fails on the service: a PAID reservation
  cannot be started, \<^verbatim>\<open>mark_reservation_as_started\<close> refuses it with HTTP 400,
  while a CONFIRMED one is started.
\<close>

theorem start_requires_paid_counterexample:
  "reservation_by_id db_paid 1 = Some res_paid
   \<and> r_status res_paid = ReservationStatus_PAID
   \<and> r_passenger_id res_paid = u_id passenger0
   \<and> mark_reservation_as_started db_paid 1 passenger0 50 = Inl HTTP_400_BAD_REQUEST
   \<and> reservation_by_id db_confirmed 1 = Some res_confirmed
   \<and> r_status res_confirmed = ReservationStatus_CONFIRMED
   \<and> mark_reservation_as_started db_confirmed 1 passenger0 50 =
       Inr (res_confirmed\<lparr>r_status := ReservationStatus_STARTED,
                           r_actual_pickup_time := Some 50\<rparr>,
            db_confirmed\<lparr>db_reservations :=
              [res_confirmed\<lparr>r_status := ReservationStatus_STARTED,
                              r_actual_pickup_time := Some 50\<rparr>]\<rparr>)"
  by (simp add: mark_reservation_as_started_def get_reservation_by_id_def table_defs
        example_defs Let_def)

text \<open>
  C2, amended. \<^verbatim>\<open>mark_reservation_as_started\<close> returns exactly when the
  reservation exists, the caller is its passenger or the driver of its trip, and its
  status is CONFIRMED; it then stores the reservation as STARTED with
  \<open>actual_pickup_time\<close> stamped. For a reservation the caller may access in any other
  status, PAID included, it raises HTTP 400, and a raised error carries no new state.
  The model method \<^verbatim>\<open>Reservation.start_trip\<close>, which no service calls, answers
  \<open>True\<close> exactly when the status is PAID, making the same two writes, and otherwise
  answers \<open>False\<close> and leaves the reservation as it is.
\<close>

theorem mark_reservation_as_started_guard:
  "((\<exists>res db'. mark_reservation_as_started db rid user now = Inr (res, db'))
      \<longleftrightarrow> (\<exists>r. reservation_by_id db rid = Some r
               \<and> (r_passenger_id r = u_id user
                  \<or> (\<exists>t. trip_by_id db (r_trip_id r) = Some t \<and> t_driver_id t = u_id user))
               \<and> r_status r = ReservationStatus_CONFIRMED))
   \<and> (\<forall>r. get_reservation_by_id db rid user = Inr r
            \<and> r_status r \<noteq> ReservationStatus_CONFIRMED
          \<longrightarrow> mark_reservation_as_started db rid user now = Inl HTTP_400_BAD_REQUEST)
   \<and> (\<forall>r. get_reservation_by_id db rid user = Inr r
            \<and> r_status r = ReservationStatus_CONFIRMED
          \<longrightarrow> mark_reservation_as_started db rid user now =
                Inr (r\<lparr>r_status := ReservationStatus_STARTED, r_actual_pickup_time := Some now\<rparr>,
                     commit_reservation db
                       (r\<lparr>r_status := ReservationStatus_STARTED,
                          r_actual_pickup_time := Some now\<rparr>))
              \<and> reservation_by_id
                   (commit_reservation db
                      (r\<lparr>r_status := ReservationStatus_STARTED,
                         r_actual_pickup_time := Some now\<rparr>)) rid
                 = Some (r\<lparr>r_status := ReservationStatus_STARTED,
                           r_actual_pickup_time := Some now\<rparr>))
   \<and> (fst (start_trip r0 now) \<longleftrightarrow> r_status r0 = ReservationStatus_PAID)
   \<and> (r_status r0 = ReservationStatus_PAID \<longrightarrow>
         snd (start_trip r0 now) =
           r0\<lparr>r_status := ReservationStatus_STARTED, r_actual_pickup_time := Some now\<rparr>)
   \<and> (r_status r0 \<noteq> ReservationStatus_PAID \<longrightarrow> snd (start_trip r0 now) = r0)"
proof (intro conjI allI impI)
  show "(\<exists>res db'. mark_reservation_as_started db rid user now = Inr (res, db'))
      \<longleftrightarrow> (\<exists>r. reservation_by_id db rid = Some r
               \<and> (r_passenger_id r = u_id user
                  \<or> (\<exists>t. trip_by_id db (r_trip_id r) = Some t \<and> t_driver_id t = u_id user))
               \<and> r_status r = ReservationStatus_CONFIRMED)"
  proof -
    have "(\<exists>res db'. mark_reservation_as_started db rid user now = Inr (res, db'))
      \<longleftrightarrow> (\<exists>r. get_reservation_by_id db rid user = Inr r
               \<and> r_status r = ReservationStatus_CONFIRMED)"
      by (auto simp: mark_reservation_as_started_def Let_def split: sum.splits if_splits)
    then show ?thesis
      by (simp add: get_reservation_by_id_Inr conj_assoc)
  qed
next
  fix r
  assume "get_reservation_by_id db rid user = Inr r
            \<and> r_status r \<noteq> ReservationStatus_CONFIRMED"
  then show "mark_reservation_as_started db rid user now = Inl HTTP_400_BAD_REQUEST"
    by (simp add: mark_reservation_as_started_def)
next
  fix r
  assume a: "get_reservation_by_id db rid user = Inr r
            \<and> r_status r = ReservationStatus_CONFIRMED"
  then show "mark_reservation_as_started db rid user now =
                Inr (r\<lparr>r_status := ReservationStatus_STARTED, r_actual_pickup_time := Some now\<rparr>,
                     commit_reservation db
                       (r\<lparr>r_status := ReservationStatus_STARTED,
                          r_actual_pickup_time := Some now\<rparr>))"
    by (simp add: mark_reservation_as_started_def Let_def)
  from a have "reservation_by_id db rid = Some r"
    by (simp add: get_reservation_by_id_Inr)
  then show "reservation_by_id
                   (commit_reservation db
                      (r\<lparr>r_status := ReservationStatus_STARTED,
                         r_actual_pickup_time := Some now\<rparr>)) rid
                 = Some (r\<lparr>r_status := ReservationStatus_STARTED,
                           r_actual_pickup_time := Some now\<rparr>)"
    by (frule_tac reservation_by_id_key) (simp add: reservation_by_id_commit_reservation)
qed (simp_all add: start_trip_def)

theorem mark_reservation_as_started_guard_witness:
  "get_reservation_by_id db_confirmed 1 passenger0 = Inr res_confirmed
   \<and> r_status res_confirmed = ReservationStatus_CONFIRMED
   \<and> r_status (fst (projr (mark_reservation_as_started db_confirmed 1 passenger0 50)))
       = ReservationStatus_STARTED
   \<and> get_reservation_by_id db_paid 1 passenger0 = Inr res_paid
   \<and> r_status res_paid \<noteq> ReservationStatus_CONFIRMED
   \<and> mark_reservation_as_started db_paid 1 passenger0 50 = Inl HTTP_400_BAD_REQUEST
   \<and> fst (start_trip res_paid 50) \<and> \<not> fst (start_trip res_confirmed 50)"
proof -
  have a: "get_reservation_by_id db_confirmed 1 passenger0 = Inr res_confirmed"
    by (simp add: get_reservation_by_id_def table_defs example_defs)
  have b: "get_reservation_by_id db_paid 1 passenger0 = Inr res_paid"
    by (simp add: get_reservation_by_id_def table_defs example_defs)
  have c: "r_status res_confirmed = ReservationStatus_CONFIRMED"
          "r_status res_paid = ReservationStatus_PAID"
    by (simp_all add: example_defs)
  from mark_reservation_as_started_guard [of db_confirmed 1 passenger0 50 res_paid] a c
  have 1: "mark_reservation_as_started db_confirmed 1 passenger0 50 =
             Inr (res_confirmed\<lparr>r_status := ReservationStatus_STARTED,
                                 r_actual_pickup_time := Some 50\<rparr>,
                  commit_reservation db_confirmed
                    (res_confirmed\<lparr>r_status := ReservationStatus_STARTED,
                                    r_actual_pickup_time := Some 50\<rparr>))"
       and 2: "fst (start_trip res_paid 50)"
    by blast+
  from mark_reservation_as_started_guard [of db_paid 1 passenger0 50 res_confirmed] b c
  have 3: "mark_reservation_as_started db_paid 1 passenger0 50 = Inl HTTP_400_BAD_REQUEST"
       and 4: "\<not> fst (start_trip res_confirmed 50)"
    by auto
  show ?thesis using a b c 1 2 3 4 by simp
qed

section \<open>Cancellation\<close>

text \<open>
  \<^verbatim>\<open>cancel_reservation\<close> tests for CONFIRMED or PAID after it has overwritten the
  status with a cancelled one, so the branch that releases seats is never taken: no
  call changes the trips table.
\<close>

lemma cancel_reservation_trips_unchanged:
  assumes "cancel_reservation db rid user reason now = Inr (res, db')"
  shows "db_trips db' = db_trips db \<and> db_users db' = db_users db"
  using assms
  by (auto simp: cancel_reservation_def Let_def commit_frames
           split: sum.splits option.splits if_splits)

text \<open>
  C1 at Scenario C. The passenger cancels a CONFIRMED reservation of two seats on the
  trip that has two of its four seats free: the reservation becomes
  CANCELLED_BY_PASSENGER with \<open>cancelled_at\<close> and the reason stamped, and the trip
  still has two free seats, where the claim requires four.
\<close>

theorem cancel_confirmed_releases_no_seats:
  "reservation_by_id db_confirmed 1 = Some res_confirmed
   \<and> r_status res_confirmed = ReservationStatus_CONFIRMED
   \<and> r_number_of_seats res_confirmed = 2
   \<and> trip_by_id db_confirmed 1 = Some trip0 \<and> t_available_seats trip0 = 2
   \<and> cancel_reservation db_confirmed 1 passenger0 ''change of plans'' 50 =
       Inr (res_confirmed\<lparr>r_status := ReservationStatus_CANCELLED_BY_PASSENGER,
                           r_cancelled_at := Some 50,
                           r_cancellation_reason := Some ''change of plans''\<rparr>,
            db_confirmed\<lparr>db_reservations :=
              [res_confirmed\<lparr>r_status := ReservationStatus_CANCELLED_BY_PASSENGER,
                              r_cancelled_at := Some 50,
                              r_cancellation_reason := Some ''change of plans''\<rparr>]\<rparr>)
   \<and> trip_by_id
        (db_confirmed\<lparr>db_reservations :=
              [res_confirmed\<lparr>r_status := ReservationStatus_CANCELLED_BY_PASSENGER,
                              r_cancelled_at := Some 50,
                              r_cancellation_reason := Some ''change of plans''\<rparr>]\<rparr>) 1
       = Some trip0"
  by (simp add: cancel_reservation_def get_reservation_by_id_def can_be_cancelled_def
        table_defs example_defs Let_def)

section \<open>Trip creation\<close>

text \<open>
  C10, as stated, fails in its middle part: the limit is checked by
  \<^verbatim>\<open>create_trip\<close> and nowhere else, and \<^verbatim>\<open>confirm_reservation\<close> does not look
  at the trip's status. A driver with five active trips cancels the two-seat trip 6,
  publishes trip 7 (five active trips again), then accepts the pending request for
  both seats of the cancelled trip, which sets that trip to FULL: six trips of the
  driver are now ACTIVE or FULL.
\<close>

theorem active_trips_above_limit_counterexample:
  "active_trips_count db_limit0 (u_id driver0) = 5
   \<and> cancel_trip db_limit0 6 driver0 ''breakdown'' 5 = Inr (trip_short_cancelled, db_limit1)
   \<and> create_trip db_limit1 trip_data0 driver0 = Inr (trip_seventh, db_limit2)
   \<and> active_trips_count db_limit2 (u_id driver0) = 5
   \<and> confirm_reservation db_limit2 1 driver0 True None 10 =
       Inr (res_short\<lparr>r_status := ReservationStatus_CONFIRMED, r_confirmed_at := Some 10\<rparr>,
            db_limit3)
   \<and> active_trips_count db_limit3 (u_id driver0) = 6"
proof -
  have 1: "active_trips_count db_limit0 (u_id driver0) = 5"
    by (simp add: active_trips_count_def limit_defs example_defs)
  have 2: "cancel_trip db_limit0 6 driver0 ''breakdown'' 5 = Inr (trip_short_cancelled, db_limit1)"
    by (simp add: cancel_trip_def get_trip_by_id_def table_defs limit_defs example_defs Let_def)
  have 3: "create_trip db_limit1 trip_data0 driver0 = Inr (trip_seventh, db_limit2)"
    by (simp add: create_trip_def can_create_trip_def is_driver_def is_verified_def
          active_trips_count_def next_id_def table_defs limit_defs example_defs Let_def)
  have 4: "active_trips_count db_limit2 (u_id driver0) = 5"
    by (simp add: active_trips_count_def limit_defs example_defs)
  have 5: "confirm_reservation db_limit2 1 driver0 True None 10 =
       Inr (res_short\<lparr>r_status := ReservationStatus_CONFIRMED, r_confirmed_at := Some 10\<rparr>,
            db_limit3)"
    by (simp add: confirm_reservation_def truthy_def table_defs limit_defs example_defs Let_def)
  have 6: "active_trips_count db_limit3 (u_id driver0) = 6"
    by (simp add: active_trips_count_def limit_defs example_defs)
  from 1 2 3 4 5 6 show ?thesis by blast
qed

text \<open>
  C10, amended. \<^verbatim>\<open>create_trip\<close> raises, creating nothing, when the driver
  already has five or more trips whose status is ACTIVE or FULL (HTTP 400, or HTTP
  403 when the driver may not create trips at all); the test comes before any
  write. A call that returns started from fewer than five such trips and appends
  exactly one ACTIVE trip of that driver, so trip creation never takes a driver above
  five.
\<close>

theorem create_trip_active_limit:
  "(5 \<le> active_trips_count db (u_id driver) \<longrightarrow>
      create_trip db data driver =
        (if can_create_trip driver then Inl HTTP_400_BAD_REQUEST else Inl HTTP_403_FORBIDDEN))
   \<and> (\<forall>trip db'. create_trip db data driver = Inr (trip, db') \<longrightarrow>
          active_trips_count db (u_id driver) < 5
          \<and> db_trips db' = db_trips db @ [trip]
          \<and> t_driver_id trip = u_id driver \<and> t_status trip = TripStatus_ACTIVE
          \<and> active_trips_count db' (u_id driver) = active_trips_count db (u_id driver) + 1
          \<and> active_trips_count db' (u_id driver) \<le> 5)"
proof (intro conjI allI impI)
  assume "5 \<le> active_trips_count db (u_id driver)"
  then show "create_trip db data driver =
        (if can_create_trip driver then Inl HTTP_400_BAD_REQUEST else Inl HTTP_403_FORBIDDEN)"
    by (simp add: create_trip_def)
next
  fix trip db'
  assume h: "create_trip db data driver = Inr (trip, db')"
  then show lt: "active_trips_count db (u_id driver) < 5"
    by (auto simp: create_trip_def split: if_splits)
  from h show app: "db_trips db' = db_trips db @ [trip]"
    by (auto simp: create_trip_def Let_def commit_frames split: if_splits)
  from h show d: "t_driver_id trip = u_id driver"
    by (auto simp: create_trip_def Let_def split: if_splits)
  from h show st: "t_status trip = TripStatus_ACTIVE"
    by (auto simp: create_trip_def Let_def split: if_splits)
  from app d st
  show cnt: "active_trips_count db' (u_id driver) = active_trips_count db (u_id driver) + 1"
    by (simp add: active_trips_count_def)
  from cnt lt show "active_trips_count db' (u_id driver) \<le> 5"
    by simp
qed

theorem create_trip_active_limit_witness:
  "active_trips_count db_five_trips (u_id driver0) = 5 \<and> can_create_trip driver0
   \<and> create_trip db_five_trips trip_data0 driver0 = Inl HTTP_400_BAD_REQUEST
   \<and> active_trips_count db_four_trips (u_id driver0) = 4
   \<and> (\<exists>trip db'. create_trip db_four_trips trip_data0 driver0 = Inr (trip, db')
          \<and> active_trips_count db' (u_id driver0) = 5)"
proof -
  have five: "active_trips_count db_five_trips (u_id driver0) = 5"
    by (simp add: active_trips_count_def db_five_trips_def example_defs)
  have four: "active_trips_count db_four_trips (u_id driver0) = 4"
    by (simp add: active_trips_count_def db_four_trips_def example_defs)
  have can: "can_create_trip driver0"
    by (simp add: can_create_trip_def is_driver_def is_verified_def example_defs)
  from create_trip_active_limit [of db_five_trips driver0 trip_data0] five can
  have a: "create_trip db_five_trips trip_data0 driver0 = Inl HTTP_400_BAD_REQUEST"
    by simp
  obtain trip db' where ok: "create_trip db_four_trips trip_data0 driver0 = Inr (trip, db')"
    using four can by (simp add: create_trip_def Let_def)
  with create_trip_active_limit [of db_four_trips driver0 trip_data0] four
  have "active_trips_count db' (u_id driver0) = 5"
    by simp
  with ok a five four can show ?thesis by blast
qed

section \<open>Rating a completed reservation\<close>



text \<open>
  The model method \<^verbatim>\<open>Reservation.rate_driver\<close> has no such test either: on a
  completed reservation a rating in range is written whatever is stored already.
\<close>

lemma rate_driver_overwrites:
  assumes "can_be_rated r" and "1 \<le> rating" and "rating \<le> 5"
  shows "rate_driver r rating comment =
           (True, r\<lparr>r_driver_rating := Some rating, r_passenger_comment := comment\<rparr>)"
  using assms by (simp add: rate_driver_def)







end
